theory Spec2Isabelle
  imports Complex_Main
begin

section \<open>Numeric model\<close>

text \<open>
  The two analytical kernels of the book are short numeric routines: the Mie-series
  efficiencies of a wire (\<open>analytical_efficiencies_wire\<close>) and the mode-condition check of
  the half-loaded waveguide (\<open>analytical_modes\<close>).

  Python floats are modelled as \<open>real\<close> and NumPy complex scalars as \<open>complex\<close>: the
  arithmetic is exact, so rounding is outside the model. The arguments of both routines
  are Python scalars, as the type hints say and the demos pass them. What Python itself
  does with them is inside the model: the true division of two Python scalars raises
  \<open>ZeroDivisionError\<close> on a zero divisor, and the power of a Python scalar raises
  \<open>OverflowError\<close> when the result leaves the range of a double. An operation in which
  one operand is a NumPy scalar (the result of \<open>np.sqrt\<close>, \<open>np.tan\<close>, \<open>jv\<close>, ...) never
  raises.
\<close>

datatype py_error = ZeroDivisionError | OverflowError

text \<open>
  The quotient is exact. Python's division does not raise on overflow: a quotient
  outside the range of a double stands for the infinity that Python returns.
\<close>

definition py_truediv :: "real \<Rightarrow> real \<Rightarrow> py_error + real" where
  "py_truediv a b = (if b = 0 then Inl ZeroDivisionError else Inr (a / b))"

text \<open>
  The range of a double: \<open>2^1024 - 2^970\<close> is the least magnitude that rounds to
  infinity (to nearest, ties to even), and \<open>2^-1022\<close> is the least positive normal
  double.
\<close>

definition float_overflow :: real where
  "float_overflow = 2 ^ 1024 - 2 ^ 970"

definition float_min_normal :: real where
  "float_min_normal = 1 / 2 ^ 1022"

definition py_finite :: "real \<Rightarrow> bool" where
  "py_finite x \<longleftrightarrow> \<bar>x\<bar> < float_overflow"

text \<open>
  \<open>x ** 2\<close> on a Python float: \<open>OverflowError\<close> when the square of a finite \<open>x\<close> is out
  of range; an infinite \<open>x\<close> has an infinite square and nothing is raised. \<open>None\<close> is a
  value that is not finite.
\<close>

definition py_pow2 :: "real \<Rightarrow> py_error + real option" where
  "py_pow2 x =
    (if \<not> py_finite x then Inr None
     else if \<not> py_finite (x ^ 2) then Inl OverflowError
     else Inr (Some (x ^ 2)))"

text \<open>
  \<open>z ** 2\<close> on a Python complex, as CPython computes it: the product
  \<open>(a*a - b*b, a*b + b*a)\<close> of \<open>z = a + b j\<close> with itself, multiplied by one, and
  \<open>OverflowError\<close> when a part of the result is infinite. The real part of the product
  is infinite when exactly one of \<open>a*a\<close>, \<open>b*b\<close> overflows, and not a number when both
  do; the imaginary part is infinite when \<open>2 a b\<close> overflows. When exactly one part of the
  product is infinite and the other finite, the multiplication by one keeps an infinite
  part and the power raises; otherwise both parts of the result are not numbers and
  nothing is raised. A real \<open>z\<close> behaves as the Python float does.
\<close>

definition py_cpow2 :: "complex \<Rightarrow> py_error + complex option" where
  "py_cpow2 z =
    (let re_finite = (py_finite ((Re z) ^ 2) \<and> py_finite ((Im z) ^ 2));
         re_infinite = (py_finite ((Re z) ^ 2) \<noteq> py_finite ((Im z) ^ 2));
         im_finite = py_finite (2 * Re z * Im z)
     in if re_finite \<and> im_finite then Inr (Some (z ^ 2))
        else if (re_infinite \<and> im_finite) \<or> (re_finite \<and> \<not> im_finite) then Inl OverflowError
        else Inr None)"

text \<open>\<open>range(a, b)\<close> over Python's unbounded integers, as the list it iterates.\<close>

definition py_range :: "int \<Rightarrow> int \<Rightarrow> int list" where
  "py_range a b = [a..b - 1]"

text \<open>
  \<open>np.isclose(a, b, rtol, atol)\<close> on finite scalars is NumPy's documented test
  \<open>absolute(a - b) <= atol + rtol * absolute(b)\<close>, where \<open>absolute\<close> of a complex number
  is its modulus. The default relative tolerance is \<open>1e-05\<close>.
\<close>

definition isclose :: "complex \<Rightarrow> complex \<Rightarrow> real \<Rightarrow> real \<Rightarrow> bool" where
  "isclose a b rtol atol = (cmod (a - b) \<le> atol + rtol * cmod b)"

definition isclose_rtol :: real where
  "isclose_rtol = 1 / 10 ^ 5"

section \<open>Mie efficiencies of a wire\<close>

text \<open>
  The routine imports \<open>jv\<close>, \<open>jvp\<close>, \<open>hankel2\<close> and \<open>h2vp\<close> from \<open>scipy.special\<close>. They are
  not code of the book, so the model takes them as a table of functions. The order is a
  Python integer, the argument a complex number (a real argument is embedded by
  \<open>of_real\<close>), and the third argument of \<open>jvp\<close> and \<open>h2vp\<close> is the order of the
  derivative.
\<close>

record special =
  jv :: "int \<Rightarrow> complex \<Rightarrow> complex"
  jvp :: "int \<Rightarrow> complex \<Rightarrow> nat \<Rightarrow> complex"
  hankel2 :: "int \<Rightarrow> complex \<Rightarrow> complex"
  h2vp :: "int \<Rightarrow> complex \<Rightarrow> nat \<Rightarrow> complex"

definition compute_a :: "special \<Rightarrow> int \<Rightarrow> complex \<Rightarrow> real \<Rightarrow> complex" where
  "compute_a sf nu m alpha =
    (let J_nu_alpha = jv sf nu (of_real alpha);
         J_nu_malpha = jv sf nu (m * of_real alpha);
         J_nu_alpha_p = jvp sf nu (of_real alpha) 1;
         J_nu_malpha_p = jvp sf nu (m * of_real alpha) 1;
         H_nu_alpha = hankel2 sf nu (of_real alpha);
         H_nu_alpha_p = h2vp sf nu (of_real alpha) 1;
         a_nu_num = J_nu_alpha * J_nu_malpha_p - m * J_nu_malpha * J_nu_alpha_p;
         a_nu_den = H_nu_alpha * J_nu_malpha_p - m * J_nu_malpha * H_nu_alpha_p
     in a_nu_num / a_nu_den)"

text \<open>
  The body of the \<open>for nu in range(1, num_n + 1)\<close> loop, on the pair of accumulators
  \<open>(q_ext, q_sca)\<close>, and the loop itself over the values of the range.
\<close>

definition efficiencies_step ::
  "special \<Rightarrow> complex \<Rightarrow> real \<Rightarrow> real \<Rightarrow> int \<Rightarrow> real \<times> real \<Rightarrow> real \<times> real" where
  "efficiencies_step sf m alpha c nu acc =
    (case acc of (q_ext, q_sca) \<Rightarrow>
       (q_ext + c * 2 * Re (compute_a sf nu m alpha),
        q_sca + c * 2 * (cmod (compute_a sf nu m alpha)) ^ 2))"

fun efficiencies_loop ::
  "special \<Rightarrow> complex \<Rightarrow> real \<Rightarrow> real \<Rightarrow> int list \<Rightarrow> real \<times> real \<Rightarrow> real \<times> real" where
  "efficiencies_loop sf m alpha c [] acc = acc"
| "efficiencies_loop sf m alpha c (nu # nus) acc =
     efficiencies_loop sf m alpha c nus (efficiencies_step sf m alpha c nu acc)"

definition calculate_analytical_efficiencies ::
  "special \<Rightarrow> complex \<Rightarrow> real \<Rightarrow> real \<Rightarrow> real \<Rightarrow> int \<Rightarrow> py_error + (real \<times> real \<times> real)" where
  "calculate_analytical_efficiencies sf eps n_bkg wl0 radius_wire num_n =
    (let m = csqrt (cnj eps) / of_real n_bkg in
     case py_truediv (2 * pi * radius_wire) wl0 of
       Inl e \<Rightarrow> Inl e
     | Inr t \<Rightarrow>
        (let alpha = t * n_bkg in
         case py_truediv 2 alpha of
           Inl e \<Rightarrow> Inl e
         | Inr c \<Rightarrow>
            (let q_ext = c * Re (compute_a sf 0 m alpha);
                 q_sca = c * (cmod (compute_a sf 0 m alpha)) ^ 2
             in case efficiencies_loop sf m alpha c (py_range 1 (num_n + 1)) (q_ext, q_sca) of
                  (q_ext, q_sca) \<Rightarrow> Inr (q_ext - q_sca, q_sca, q_ext))))"

section \<open>Mode conditions of the half-loaded waveguide\<close>

definition TMx_condition ::
  "complex \<Rightarrow> complex \<Rightarrow> complex \<Rightarrow> complex \<Rightarrow> real \<Rightarrow> real \<Rightarrow> complex" where
  "TMx_condition kx_d kx_v eps_d eps_v d h =
     kx_d / eps_d * tan (kx_d * of_real d) + kx_v / eps_v * tan (kx_v * of_real (h - d))"

definition TEx_condition :: "complex \<Rightarrow> complex \<Rightarrow> real \<Rightarrow> real \<Rightarrow> complex" where
  "TEx_condition kx_d kx_v d h =
     kx_d / tan (kx_d * of_real d) + kx_v / tan (kx_v * of_real (h - d))"

text \<open>
  Where exact arithmetic gives a residual no value (a zero permittivity as divisor, a
  pole of the tangent, a zero of the tangent as divisor), NumPy returns an infinity, a
  not-a-number or a number that rounding alone decides. The residual has a value when
  every operation on the way has one.
\<close>

definition TMx_defined ::
  "complex \<Rightarrow> complex \<Rightarrow> complex \<Rightarrow> complex \<Rightarrow> real \<Rightarrow> real \<Rightarrow> bool" where
  "TMx_defined kx_d kx_v eps_d eps_v d h \<longleftrightarrow>
     eps_d \<noteq> 0 \<and> eps_v \<noteq> 0
     \<and> cos (kx_d * of_real d) \<noteq> 0 \<and> cos (kx_v * of_real (h - d)) \<noteq> 0"

definition TEx_defined :: "complex \<Rightarrow> complex \<Rightarrow> real \<Rightarrow> real \<Rightarrow> bool" where
  "TEx_defined kx_d kx_v d h \<longleftrightarrow>
     cos (kx_d * of_real d) \<noteq> 0 \<and> sin (kx_d * of_real d) \<noteq> 0
     \<and> cos (kx_v * of_real (h - d)) \<noteq> 0 \<and> sin (kx_v * of_real (h - d)) \<noteq> 0"

text \<open>
  \<open>np.isclose(f, 0, atol=threshold)\<close> on a residual: the test on its value when it has
  one, and no verdict (\<open>None\<close>) when it has none. Python's \<open>or\<close> of two tests is true as
  soon as one of them is known to be true, false when both are known to be false, and
  has no verdict otherwise.
\<close>

definition residual_isclose :: "bool \<Rightarrow> complex \<Rightarrow> real \<Rightarrow> bool option" where
  "residual_isclose defined f threshold =
     (if defined then Some (isclose f 0 isclose_rtol threshold) else None)"

definition py_or :: "bool option \<Rightarrow> bool option \<Rightarrow> bool option" where
  "py_or a b =
    (case a of
       Some True \<Rightarrow> Some True
     | Some False \<Rightarrow> b
     | None \<Rightarrow> (case b of Some True \<Rightarrow> Some True | Some False \<Rightarrow> None | None \<Rightarrow> None))"

text \<open>
  The middle of \<open>verify_mode\<close>, from \<open>kx_d_target\<close> to \<open>kx_d\<close>: the two transverse
  wavenumbers, as the pair \<open>(kx_d, kx_v)\<close>. The three squares of Python scalars are
  taken in the order of the source; the second \<open>k0**2\<close>, in \<open>beta\<close>, has the outcome and
  the value of the first. With a square that is not finite there are no wavenumbers in
  exact arithmetic (\<open>None\<close>). The permittivities are complex numbers; the real ones of
  the demo are embedded.
\<close>

definition verify_mode_wavenumbers ::
  "complex \<Rightarrow> real \<Rightarrow> real \<Rightarrow> complex \<Rightarrow> complex \<Rightarrow> py_error + (complex \<times> complex) option" where
  "verify_mode_wavenumbers kz k0 ky eps_d eps_v =
    (case py_pow2 k0 of
       Inl e \<Rightarrow> Inl e
     | Inr k0_sq \<Rightarrow>
        (case py_pow2 ky of
           Inl e \<Rightarrow> Inl e
         | Inr ky_sq \<Rightarrow>
            (case py_cpow2 kz of
               Inl e \<Rightarrow> Inl e
             | Inr kz_sq \<Rightarrow>
                (case (k0_sq, ky_sq, kz_sq) of
                   (Some k0_2, Some ky_2, Some kz_2) \<Rightarrow>
                     (let kx_d_target = csqrt (of_real k0_2 * eps_d - of_real ky_2 + (- kz_2) + 0);
                          alpha = kx_d_target ^ 2;
                          beta = alpha - of_real k0_2 * (eps_d - eps_v);
                          kx_v = csqrt beta;
                          kx_d = csqrt alpha
                      in Inr (Some (kx_d, kx_v)))
                 | _ \<Rightarrow> Inr None))))"

text \<open>
  The check returns a truth value whenever it does not raise; \<open>Inr None\<close> is a return
  whose value exact arithmetic does not determine.
\<close>

definition verify_mode ::
  "complex \<Rightarrow> real \<Rightarrow> real \<Rightarrow> real \<Rightarrow> real \<Rightarrow> complex \<Rightarrow> complex \<Rightarrow> real
     \<Rightarrow> py_error + bool option" where
  "verify_mode kz w h d lmbd0 eps_d eps_v threshold =
    (case py_truediv (2 * pi) lmbd0 of
       Inl e \<Rightarrow> Inl e
     | Inr k0 \<Rightarrow>
        (let n = 1 in
         case py_truediv (n * pi) w of
           Inl e \<Rightarrow> Inl e
         | Inr ky \<Rightarrow>
            (case verify_mode_wavenumbers kz k0 ky eps_d eps_v of
               Inl e \<Rightarrow> Inl e
             | Inr None \<Rightarrow> Inr None
             | Inr (Some (kx_d, kx_v)) \<Rightarrow>
                 (let f_tm = TMx_condition kx_d kx_v eps_d eps_v d h;
                      f_te = TEx_condition kx_d kx_v d h
                  in Inr (py_or
                       (residual_isclose (TMx_defined kx_d kx_v eps_d eps_v d h) f_tm threshold)
                       (residual_isclose (TEx_defined kx_d kx_v d h) f_te threshold))))))"

text \<open>
  The squares of \<open>verify_mode\<close> stay in the range of a double: \<open>k0\<close> and \<open>ky\<close> are
  finite, and so are their squares and the products that make the square of \<open>kz\<close>.
\<close>

definition squares_finite :: "complex \<Rightarrow> real \<Rightarrow> real \<Rightarrow> bool" where
  "squares_finite kz k0 ky \<longleftrightarrow>
     py_finite k0 \<and> py_finite (k0 ^ 2) \<and> py_finite ky \<and> py_finite (ky ^ 2)
     \<and> py_finite ((Re kz) ^ 2) \<and> py_finite ((Im kz) ^ 2) \<and> py_finite (2 * Re kz * Im kz)"

section \<open>A sample table\<close>

text \<open>
  Every theorem below holds for every table of special functions. Where a theorem is
  instantiated at concrete arguments, this table of constant functions stands for the
  library.
\<close>

definition sample_special :: special where
  "sample_special = \<lparr>jv = (\<lambda>nu z. 1), jvp = (\<lambda>nu z k. 1),
                      hankel2 = (\<lambda>nu z. 2), h2vp = (\<lambda>nu z k. 1)\<rparr>"

section \<open>The loop as a sum\<close>

lemma efficiencies_loop_sums:
  "efficiencies_loop sf m alpha c nus (e, s) =
     (e + c * 2 * (\<Sum>nu\<leftarrow>nus. Re (compute_a sf nu m alpha)),
      s + c * 2 * (\<Sum>nu\<leftarrow>nus. (cmod (compute_a sf nu m alpha)) ^ 2))"
  by (induction nus arbitrary: e s) (simp_all add: efficiencies_step_def algebra_simps)

lemma sum_list_py_range:
  "(\<Sum>nu\<leftarrow>py_range 1 (n + 1). f nu) = (\<Sum>nu = 1..n. f nu)"
  by (simp add: py_range_def interv_sum_list_conv_sum_set_int)

lemma size_parameter_nonzero:
  "wl0 \<noteq> 0 \<Longrightarrow> radius_wire \<noteq> 0 \<Longrightarrow> n_bkg \<noteq> 0
     \<Longrightarrow> 2 * pi * radius_wire / wl0 * n_bkg \<noteq> 0"
  by simp

lemma size_parameter_eq:
  "2 * pi * radius_wire / wl0 * n_bkg = 2 * pi * radius_wire * n_bkg / wl0"
  by simp

text \<open>
  With none of the three divisors zero, both divisions succeed and the routine returns
  the accumulators of the loop, written as sums over the orders \<open>1..num_n\<close>.
\<close>

lemma efficiencies_returns:
  assumes "wl0 \<noteq> 0" "radius_wire \<noteq> 0" "n_bkg \<noteq> 0"
  shows "calculate_analytical_efficiencies sf eps n_bkg wl0 radius_wire num_n =
    (let m = csqrt (cnj eps) / of_real n_bkg;
         alpha = 2 * pi * radius_wire / wl0 * n_bkg;
         c = 2 / alpha;
         q_ext = c * Re (compute_a sf 0 m alpha)
                 + c * 2 * (\<Sum>nu = 1..num_n. Re (compute_a sf nu m alpha));
         q_sca = c * (cmod (compute_a sf 0 m alpha)) ^ 2
                 + c * 2 * (\<Sum>nu = 1..num_n. (cmod (compute_a sf nu m alpha)) ^ 2)
     in Inr (q_ext - q_sca, q_sca, q_ext))"
proof -
  define alpha where "alpha = 2 * pi * radius_wire / wl0 * n_bkg"
  have t: "py_truediv (2 * pi * radius_wire) wl0 = Inr (2 * pi * radius_wire / wl0)"
    using assms(1) by (simp add: py_truediv_def)
  have "alpha \<noteq> 0"
    unfolding alpha_def using assms by (rule size_parameter_nonzero)
  then have c: "py_truediv 2 alpha = Inr (2 / alpha)"
    by (simp add: py_truediv_def)
  show ?thesis
    unfolding calculate_analytical_efficiencies_def Let_def t sum.case alpha_def [symmetric] c
      efficiencies_loop_sums sum_list_py_range prod.case
    by (rule refl)
qed

lemma efficiencies_raises:
  assumes "wl0 = 0 \<or> radius_wire = 0 \<or> n_bkg = 0"
  shows "calculate_analytical_efficiencies sf eps n_bkg wl0 radius_wire num_n
           = Inl ZeroDivisionError"
  using assms by (auto simp: calculate_analytical_efficiencies_def py_truediv_def Let_def)

section \<open>The mode check unfolded\<close>

lemma isclose_zero: "isclose f 0 rtol atol \<longleftrightarrow> cmod f \<le> atol"
  by (simp add: isclose_def)

lemma py_finite_small: "\<bar>x\<bar> \<le> 100 \<Longrightarrow> py_finite x"
  by (simp add: py_finite_def float_overflow_def)

lemma py_finite_zero: "py_finite 0"
  by (rule py_finite_small) simp

text \<open>\<open>1e200\<close> is a finite double and its square, \<open>1e400\<close>, is out of range.\<close>

lemma py_finite_1e200: "py_finite (10 ^ 200)" "\<not> py_finite ((10 ^ 200) ^ 2)"
  by (simp_all add: py_finite_def float_overflow_def)

lemma complex_1e200: "Im (10 ^ 200) = 0" "Re (10 ^ 200) = 10 ^ 200"
proof -
  have "(10 :: complex) ^ 200 = of_real (10 ^ 200)"
    by simp
  then show "Im (10 ^ 200) = 0" "Re (10 ^ 200) = 10 ^ 200"
    by (simp_all only: Im_complex_of_real Re_complex_of_real)
qed

lemma verify_mode_wavenumbers_finite:
  assumes "squares_finite kz k0 ky"
  shows "verify_mode_wavenumbers kz k0 ky eps_d eps_v =
     Inr (Some (csqrt (of_real (k0 ^ 2) * eps_d - of_real (ky ^ 2) - kz ^ 2),
                csqrt ((csqrt (of_real (k0 ^ 2) * eps_d - of_real (ky ^ 2) - kz ^ 2)) ^ 2
                       - of_real (k0 ^ 2) * (eps_d - eps_v))))"
  using assms
  by (simp add: verify_mode_wavenumbers_def squares_finite_def py_pow2_def py_cpow2_def Let_def)

lemma verify_mode_wavenumbers_overflow:
  assumes "(py_finite k0 \<and> \<not> py_finite (k0 ^ 2)) \<or> (py_finite ky \<and> \<not> py_finite (ky ^ 2))
           \<or> (Im kz = 0 \<and> \<not> py_finite ((Re kz) ^ 2))"
  shows "verify_mode_wavenumbers kz k0 ky eps_d eps_v = Inl OverflowError"
proof -
  have k0: "py_pow2 k0 = Inl OverflowError \<or> (\<exists>v. py_pow2 k0 = Inr v)"
    by (simp add: py_pow2_def)
  have ky: "py_pow2 ky = Inl OverflowError \<or> (\<exists>v. py_pow2 ky = Inr v)"
    by (simp add: py_pow2_def)
  have kz: "py_cpow2 kz = Inl OverflowError \<or> (\<exists>v. py_cpow2 kz = Inr v)"
    by (simp add: py_cpow2_def Let_def)
  from assms consider
      (a) "py_pow2 k0 = Inl OverflowError"
    | (b) "py_pow2 ky = Inl OverflowError"
    | (c) "py_cpow2 kz = Inl OverflowError"
    by (auto simp: py_pow2_def py_cpow2_def Let_def py_finite_zero)
  then show ?thesis
  proof cases
    case a
    then show ?thesis by (simp add: verify_mode_wavenumbers_def)
  next
    case b
    with k0 show ?thesis by (auto simp: verify_mode_wavenumbers_def)
  next
    case c
    with k0 ky show ?thesis by (auto simp: verify_mode_wavenumbers_def)
  qed
qed

lemma verify_mode_wavenumbers_some:
  assumes "verify_mode_wavenumbers kz k0 ky eps_d eps_v = Inr (Some p)"
  shows "squares_finite kz k0 ky"
  using assms
  by (auto simp: verify_mode_wavenumbers_def squares_finite_def py_pow2_def py_cpow2_def Let_def
      split: if_splits)

lemma verify_mode_wavenumbers_no_zero_division:
  "verify_mode_wavenumbers kz k0 ky eps_d eps_v \<noteq> Inl ZeroDivisionError"
  by (auto simp: verify_mode_wavenumbers_def py_pow2_def py_cpow2_def Let_def
      split: sum.splits option.splits prod.splits if_splits)

lemma verify_mode_raises:
  assumes "lmbd0 = 0 \<or> w = 0"
  shows "verify_mode kz w h d lmbd0 eps_d eps_v threshold = Inl ZeroDivisionError"
  using assms by (auto simp: verify_mode_def py_truediv_def)

lemma verify_mode_finite:
  assumes "lmbd0 \<noteq> 0" "w \<noteq> 0" "squares_finite kz (2 * pi / lmbd0) (pi / w)"
  shows "verify_mode kz w h d lmbd0 eps_d eps_v threshold =
    (let kx_d = csqrt (of_real ((2 * pi / lmbd0) ^ 2) * eps_d - of_real ((pi / w) ^ 2) - kz ^ 2);
         kx_v = csqrt (kx_d ^ 2 - of_real ((2 * pi / lmbd0) ^ 2) * (eps_d - eps_v))
     in Inr (py_or
          (residual_isclose (TMx_defined kx_d kx_v eps_d eps_v d h)
             (TMx_condition kx_d kx_v eps_d eps_v d h) threshold)
          (residual_isclose (TEx_defined kx_d kx_v d h)
             (TEx_condition kx_d kx_v d h) threshold)))"
  using assms(1,2)
  by (simp add: verify_mode_def py_truediv_def Let_def
      verify_mode_wavenumbers_finite [OF assms(3)])

text \<open>Numbers of the size of \<open>pi\<close> are well inside the range of a double.\<close>

lemma pi_square_less_16: "pi ^ 2 < 16"
proof -
  have "pi * pi < 4 * 4"
    using pi_less_4 pi_gt_zero by (intro mult_strict_mono) simp_all
  then show ?thesis
    by (simp add: power2_eq_square)
qed

lemma squares_finite_pi:
  assumes "\<bar>a\<bar> \<le> 2" "\<bar>b\<bar> \<le> 2" "\<bar>Re kz\<bar> \<le> 2" "\<bar>Im kz\<bar> \<le> 2"
  shows "squares_finite kz (a * pi) (b * pi)"
proof -
  have sq: "\<bar>x\<bar> \<le> 2 \<Longrightarrow> x ^ 2 \<le> 4" for x :: real
    using abs_le_square_iff [of x 2] by simp
  have prod: "\<bar>x * pi\<bar> \<le> 100" "\<bar>(x * pi) ^ 2\<bar> \<le> 100" if "\<bar>x\<bar> \<le> 2" for x :: real
  proof -
    have "\<bar>x * pi\<bar> = \<bar>x\<bar> * pi"
      by (simp add: abs_mult)
    also have "\<dots> \<le> 2 * 4"
      using that pi_less_4 by (intro mult_mono) simp_all
    finally show "\<bar>x * pi\<bar> \<le> 100"
      by simp
    have "(x * pi) ^ 2 = x ^ 2 * pi ^ 2"
      by (simp add: power_mult_distrib)
    also have "\<dots> \<le> 4 * 16"
      using sq [OF that] pi_square_less_16 by (intro mult_mono) simp_all
    finally show "\<bar>(x * pi) ^ 2\<bar> \<le> 100"
      by simp
  qed
  have kz: "\<bar>(Re kz) ^ 2\<bar> \<le> 100" "\<bar>(Im kz) ^ 2\<bar> \<le> 100"
    using sq [OF assms(3)] sq [OF assms(4)] by simp_all
  have "\<bar>Re kz * Im kz\<bar> \<le> 2 * 2"
    unfolding abs_mult using assms(3,4) by (intro mult_mono) simp_all
  moreover have "\<bar>2 * Re kz * Im kz\<bar> = 2 * \<bar>Re kz * Im kz\<bar>"
    by (simp add: abs_mult)
  ultimately have kz2: "\<bar>2 * Re kz * Im kz\<bar> \<le> 100"
    by linarith
  show ?thesis
    unfolding squares_finite_def
    using prod [OF assms(1)] prod [OF assms(2)] kz kz2
    by (simp add: py_finite_small)
qed

text \<open>The tangent at a quarter and at three quarters of \<open>pi\<close>, as complex numbers.\<close>

lemma complex_trig_quarter_pi:
  "cos (complex_of_real (pi / 4)) = of_real (sqrt 2 / 2)"
  "sin (complex_of_real (pi / 4)) = of_real (sqrt 2 / 2)"
  "cos (complex_of_real (3 * pi / 4)) = of_real (- (sqrt 2 / 2))"
  "sin (complex_of_real (3 * pi / 4)) = of_real (sqrt 2 / 2)"
proof -
  have three: "3 * pi / 4 = pi - pi / 4"
    by simp
  show "cos (complex_of_real (pi / 4)) = of_real (sqrt 2 / 2)"
    by (simp only: cos_of_real cos_45)
  show "sin (complex_of_real (pi / 4)) = of_real (sqrt 2 / 2)"
    by (simp only: sin_of_real sin_45)
  show "cos (complex_of_real (3 * pi / 4)) = of_real (- (sqrt 2 / 2))"
    by (simp only: three cos_of_real cos_pi_minus cos_45)
  show "sin (complex_of_real (3 * pi / 4)) = of_real (sqrt 2 / 2)"
    by (simp only: three sin_of_real sin_pi_minus sin_45)
qed

lemma size_parameter_large:
  assumes "float_min_normal \<le> \<bar>x\<bar>"
  shows "x \<noteq> 0"
  using assms by (auto simp: float_min_normal_def)

text \<open>
  Two points where a residual has no value. In the guide of width 1 and height 1 loaded
  to half its height with \<open>eps_d = 2\<close>, at the wavelength 2 and \<open>kz = 0\<close>, the tangent of
  both conditions is taken at its pole \<open>pi / 2\<close>: the model gives no verdict (the source
  computes a residual of the order of \<open>1e16\<close> and a not-a-number, and rejects). In the
  empty guide of the demo's cross-section at its cut-off, both wavenumbers vanish: the TE
  residual has no value, the TM residual is 0, and the check accepts, as the source does.
\<close>

lemma verify_mode_at_pole: "verify_mode 0 1 1 (1 / 2) 2 2 1 (1 / 10 ^ 4) = Inr None"
proof -
  have sf: "squares_finite 0 (2 * pi / 2) (pi / 1)"
    using squares_finite_pi [of 1 1 0] by simp
  have "csqrt ((complex_of_real pi) ^ 2) = of_real pi"
    by (rule csqrt_square) simp
  then have root: "csqrt (complex_of_real (pi ^ 2)) = of_real pi"
    by (simp only: of_real_power)
  have kx_d: "complex_of_real ((2 * pi / 2) ^ 2) * 2 - of_real ((pi / 1) ^ 2) - 0 ^ 2
      = of_real (pi ^ 2)"
    by simp
  have kx_v: "(complex_of_real pi) ^ 2 - of_real ((2 * pi / 2) ^ 2) * (2 - 1) = 0"
    by simp
  have pole: "cos (complex_of_real pi * of_real (1 / 2)) = 0"
    by (simp add: cos_of_real flip: of_real_mult of_real_divide)
  show ?thesis
    unfolding verify_mode_finite [of 2 1 0, OF _ _ sf, simplified]
    apply (simp only: Let_def kx_d root kx_v)
    apply (simp add: TMx_defined_def TEx_defined_def residual_isclose_def py_or_def pole)
    done
qed

lemma verify_mode_at_cutoff:
  "verify_mode 0 1 (45 / 100) (225 / 1000) 2 1 1 (1 / 10 ^ 4) = Inr (Some True)"
proof -
  have sf: "squares_finite 0 (2 * pi / 2) (pi / 1)"
    using squares_finite_pi [of 1 1 0] by simp
  show ?thesis
    unfolding verify_mode_finite [of 2 1 0, OF _ _ sf, simplified]
    by (simp add: TMx_defined_def TEx_defined_def residual_isclose_def py_or_def
        TMx_condition_def isclose_def)
qed

section \<open>The Mie kernel\<close>

text \<open>
  C1. With a wavelength, a radius and a background index that are not zero (the formula
  divides by the wavelength and by the size parameter), the efficiencies routine computes
  the relative index \<open>m = sqrt(conj(eps)) / n_bkg\<close> with the principal square root, the
  size parameter \<open>alpha = 2 pi radius_wire n_bkg / wl0\<close>, the extinction efficiency
  \<open>q_ext = (2 / alpha) Re[a_0 + 2 sum_{nu=1}^{max_order} a_nu]\<close> and the scattering
  efficiency \<open>q_sca = (2 / alpha) [|a_0|^2 + 2 sum_{nu=1}^{max_order} |a_nu|^2]\<close>, where
  \<open>a_nu\<close> is the Mie coefficient of order \<open>nu\<close>, and returns
  \<open>(q_ext - q_sca, q_sca, q_ext)\<close>: absorption, scattering, extinction. A positive
  background index is in particular not zero, and the truncation order may be any integer:
  below one the sums are empty.
\<close>

theorem efficiencies_formula:
  assumes "wl0 \<noteq> 0" "radius_wire \<noteq> 0" "n_bkg \<noteq> 0"
  shows "calculate_analytical_efficiencies sf eps n_bkg wl0 radius_wire max_order =
    (let m = csqrt (cnj eps) / of_real n_bkg;
         alpha = 2 * pi * radius_wire * n_bkg / wl0;
         a = (\<lambda>nu. compute_a sf nu m alpha);
         q_ext = (2 / alpha) * Re (a 0 + 2 * (\<Sum>nu = 1..max_order. a nu));
         q_sca = (2 / alpha) * ((cmod (a 0)) ^ 2 + 2 * (\<Sum>nu = 1..max_order. (cmod (a nu)) ^ 2))
     in Inr (q_ext - q_sca, q_sca, q_ext))"
  unfolding efficiencies_returns [OF assms] size_parameter_eq Let_def
  by (simp add: algebra_simps)

text \<open>
  The formula at the reference case of the demo: gold, \<open>eps = -1.0782 + 5.8089i\<close>, in a
  background of index 1, at the wavelength 0.4 and the radius 0.05, truncated at 50.
\<close>

theorem efficiencies_formula_witness:
  "(4 / 10 :: real) \<noteq> 0 \<and> (5 / 100 :: real) \<noteq> 0 \<and> (1 :: real) \<noteq> 0 \<and>
   calculate_analytical_efficiencies sample_special (Complex (- (10782 / 10000)) (58089 / 10000))
       1 (4 / 10) (5 / 100) 50 =
    (let m = csqrt (cnj (Complex (- (10782 / 10000)) (58089 / 10000))) / of_real 1;
         alpha = 2 * pi * (5 / 100) * 1 / (4 / 10);
         a = (\<lambda>nu. compute_a sample_special nu m alpha);
         q_ext = (2 / alpha) * Re (a 0 + 2 * (\<Sum>nu = 1..50. a nu));
         q_sca = (2 / alpha) * ((cmod (a 0)) ^ 2 + 2 * (\<Sum>nu = 1..50. (cmod (a nu)) ^ 2))
     in Inr (q_ext - q_sca, q_sca, q_ext))"
  using efficiencies_formula [of "4 / 10" "5 / 100" 1 sample_special
      "Complex (- (10782 / 10000)) (58089 / 10000)" 50]
  by simp

text \<open>
  C2. For every order \<open>nu\<close>, relative index \<open>m\<close> and size parameter \<open>alpha\<close>, the Mie
  coefficient is the quotient
  \<open>[J_nu(alpha) J'_nu(m alpha) - m J_nu(m alpha) J'_nu(alpha)] /
   [H_nu(alpha) J'_nu(m alpha) - m J_nu(m alpha) H'_nu(alpha)]\<close>
  of the library's \<open>jv\<close>, \<open>hankel2\<close> and their first derivatives \<open>jvp\<close>, \<open>h2vp\<close>. The
  equation has no side condition: the routine has no branch on the denominator.
\<close>

theorem compute_a_formula:
  "compute_a sf nu m alpha =
     (jv sf nu (of_real alpha) * jvp sf nu (m * of_real alpha) 1
        - m * jv sf nu (m * of_real alpha) * jvp sf nu (of_real alpha) 1)
     / (hankel2 sf nu (of_real alpha) * jvp sf nu (m * of_real alpha) 1
        - m * jv sf nu (m * of_real alpha) * h2vp sf nu (of_real alpha) 1)"
  by (simp add: compute_a_def Let_def)

text \<open>
  C9. With the truncation order 0 the range of the loop is empty, so the loop runs no
  iteration, and (the wavelength, the radius and the background index not being zero) the
  efficiencies use the coefficient of order 0 only:
  \<open>q_ext = (2 / alpha) Re(a_0)\<close> and \<open>q_sca = (2 / alpha) |a_0|^2\<close>.
\<close>

theorem efficiencies_order_zero:
  assumes "wl0 \<noteq> 0" "radius_wire \<noteq> 0" "n_bkg \<noteq> 0"
  shows "py_range 1 (0 + 1) = []
       \<and> calculate_analytical_efficiencies sf eps n_bkg wl0 radius_wire 0 =
          (let m = csqrt (cnj eps) / of_real n_bkg;
               alpha = 2 * pi * radius_wire * n_bkg / wl0;
               a_0 = compute_a sf 0 m alpha;
               q_ext = (2 / alpha) * Re a_0;
               q_sca = (2 / alpha) * (cmod a_0) ^ 2
           in Inr (q_ext - q_sca, q_sca, q_ext))"
  unfolding efficiencies_returns [OF assms] size_parameter_eq Let_def
  by (simp add: py_range_def)

theorem efficiencies_order_zero_witness:
  "(4 / 10 :: real) \<noteq> 0 \<and> (5 / 100 :: real) \<noteq> 0 \<and> (1 :: real) \<noteq> 0 \<and>
   py_range 1 (0 + 1) = [] \<and>
   calculate_analytical_efficiencies sample_special (Complex (- (10782 / 10000)) (58089 / 10000))
       1 (4 / 10) (5 / 100) 0 =
    (let m = csqrt (cnj (Complex (- (10782 / 10000)) (58089 / 10000))) / of_real 1;
         alpha = 2 * pi * (5 / 100) * 1 / (4 / 10);
         a_0 = compute_a sample_special 0 m alpha;
         q_ext = (2 / alpha) * Re a_0;
         q_sca = (2 / alpha) * (cmod a_0) ^ 2
     in Inr (q_ext - q_sca, q_sca, q_ext))"
  using efficiencies_order_zero [of "4 / 10" "5 / 100" 1 sample_special
      "Complex (- (10782 / 10000)) (58089 / 10000)"]
  by simp

section \<open>The waveguide kernel\<close>

text \<open>
  C5. For all complex \<open>kx_d\<close>, \<open>kx_v\<close> and real \<open>d\<close>, \<open>h\<close>, the TE condition, computed as
  \<open>kx_d / tan(kx_d d) + kx_v / tan(kx_v (h - d))\<close>, is
  \<open>kx_d cot(kx_d d) + kx_v cot(kx_v (h - d))\<close>, and the TM condition is
  \<open>(kx_d / eps_d) tan(kx_d d) + (kx_v / eps_v) tan(kx_v (h - d))\<close>. Away from the poles
  of the tangent and the cotangent both sides are the numbers the routine computes; the
  equations hold at the poles too, where the division of the field gives 0 on both sides.
\<close>

theorem mode_conditions_formula:
  "TEx_condition kx_d kx_v d h =
     kx_d * cot (kx_d * of_real d) + kx_v * cot (kx_v * of_real (h - d))
   \<and> TMx_condition kx_d kx_v eps_d eps_v d h =
     (kx_d / eps_d) * tan (kx_d * of_real d) + (kx_v / eps_v) * tan (kx_v * of_real (h - d))"
  by (simp add: TEx_condition_def TMx_condition_def tan_def cot_def)

text \<open>
  C4, as the claim states it, fails: the computation of the transverse wavenumbers is not
  total. At \<open>kz = 1e200\<close> the square \<open>kz**2\<close> of a Python scalar leaves the range of a
  double and raises \<open>OverflowError\<close>.
\<close>

theorem transverse_wavenumbers_overflow:
  "verify_mode_wavenumbers (10 ^ 200) 1 1 (245 / 100) 1 = Inl OverflowError"
proof (rule verify_mode_wavenumbers_overflow)
  show "(py_finite 1 \<and> \<not> py_finite (1 ^ 2)) \<or> (py_finite 1 \<and> \<not> py_finite (1 ^ 2))
        \<or> (Im (10 ^ 200) = 0 \<and> \<not> py_finite ((Re (10 ^ 200)) ^ 2))"
    unfolding complex_1e200 using py_finite_1e200(2) by blast
qed

text \<open>
  C4, amended. For every complex \<open>kz\<close> and all \<open>k0\<close>, \<open>ky\<close>, \<open>eps_d\<close>, \<open>eps_v\<close> whose
  squares \<open>k0**2\<close>, \<open>ky**2\<close>, \<open>kz**2\<close> stay in the range of a double, the transverse
  wavenumbers computed inside the mode check are
  \<open>kx_d = sqrt(k0^2 eps_d - ky^2 - kz^2)\<close>, with the principal complex square root, and
  \<open>kx_v = sqrt(kx_d^2 - k0^2 (eps_d - eps_v))\<close>, and only then does it compute
  wavenumbers. The computation is not total: when the square of a finite \<open>k0\<close> or \<open>ky\<close>
  or of a real \<open>kz\<close> leaves the range, it raises \<open>OverflowError\<close>; it never raises
  \<open>ZeroDivisionError\<close>.
\<close>

theorem transverse_wavenumbers_formula:
  "(squares_finite kz k0 ky \<longrightarrow>
      verify_mode_wavenumbers kz k0 ky eps_d eps_v =
        (let kx_d = csqrt (of_real (k0 ^ 2) * eps_d - of_real (ky ^ 2) - kz ^ 2);
             kx_v = csqrt (kx_d ^ 2 - of_real (k0 ^ 2) * (eps_d - eps_v))
         in Inr (Some (kx_d, kx_v))))
   \<and> ((\<exists>p. verify_mode_wavenumbers kz k0 ky eps_d eps_v = Inr (Some p)) \<longrightarrow>
      squares_finite kz k0 ky)
   \<and> ((py_finite k0 \<and> \<not> py_finite (k0 ^ 2)) \<or> (py_finite ky \<and> \<not> py_finite (ky ^ 2))
        \<or> (Im kz = 0 \<and> \<not> py_finite ((Re kz) ^ 2)) \<longrightarrow>
      verify_mode_wavenumbers kz k0 ky eps_d eps_v = Inl OverflowError)
   \<and> verify_mode_wavenumbers kz k0 ky eps_d eps_v \<noteq> Inl ZeroDivisionError"
  unfolding Let_def
  using verify_mode_wavenumbers_finite [of kz k0 ky eps_d eps_v]
    verify_mode_wavenumbers_overflow [of k0 ky kz eps_d eps_v]
    verify_mode_wavenumbers_some [of kz k0 ky eps_d eps_v]
    verify_mode_wavenumbers_no_zero_division [of kz k0 ky eps_d eps_v]
  by blast

text \<open>
  The wavenumbers of the empty guide at \<open>k0 = 5 pi / 3\<close>, \<open>ky = 4 pi / 3\<close> and \<open>kz = 0\<close>
  are both \<open>pi\<close>; at \<open>k0 = 1e200\<close> the first square raises.
\<close>

theorem transverse_wavenumbers_formula_witness:
  "squares_finite 0 (5 / 3 * pi) (4 / 3 * pi)
   \<and> verify_mode_wavenumbers 0 (5 / 3 * pi) (4 / 3 * pi) 1 1
       = Inr (Some (of_real pi, of_real pi))
   \<and> py_finite (10 ^ 200) \<and> \<not> py_finite ((10 ^ 200) ^ 2)
   \<and> verify_mode_wavenumbers 0 (10 ^ 200) 1 1 1 = Inl OverflowError"
proof -
  have sf: "squares_finite 0 (5 / 3 * pi) (4 / 3 * pi)"
    by (rule squares_finite_pi) simp_all
  have "csqrt ((complex_of_real pi) ^ 2) = of_real pi"
    by (rule csqrt_square) simp
  then have root: "csqrt (complex_of_real (pi ^ 2)) = of_real pi"
    by (simp only: of_real_power)
  have embed: "complex_of_real x * 1 - of_real y - 0 ^ 2 = of_real (x - y)" for x y
    by simp
  have "(5 / 3 * pi) ^ 2 - (4 / 3 * pi) ^ 2 = pi ^ 2"
    by (simp add: power2_eq_square field_simps)
  then have kx_d: "csqrt (complex_of_real ((5 / 3 * pi) ^ 2) * 1 - of_real ((4 / 3 * pi) ^ 2) - 0 ^ 2)
      = of_real pi"
    unfolding embed by (simp only: root)
  have kx_v: "csqrt ((complex_of_real pi) ^ 2 - of_real ((5 / 3 * pi) ^ 2) * (1 - 1)) = of_real pi"
    using root by (simp add: of_real_power [symmetric] del: of_real_power)
  have guide: "verify_mode_wavenumbers 0 (5 / 3 * pi) (4 / 3 * pi) 1 1
      = Inr (Some (of_real pi, of_real pi))"
    using transverse_wavenumbers_formula [of 0 "5 / 3 * pi" "4 / 3 * pi" 1 1] sf
    unfolding Let_def kx_d kx_v by blast
  have raises: "verify_mode_wavenumbers 0 (10 ^ 200) 1 1 1 = Inl OverflowError"
    using transverse_wavenumbers_formula [of 0 "10 ^ 200" 1 1 1] py_finite_1e200
    by blast
  show ?thesis
    using sf guide raises py_finite_1e200 by blast
qed

text \<open>
  C3. For every candidate \<open>kz\<close> and every tuple of parameters, the mode check fixes
  \<open>n = 1\<close>, so that \<open>ky = pi / w\<close> and \<open>k0 = 2 pi / lmbd0\<close>, derives \<open>kx_d\<close> and \<open>kx_v\<close>
  from them, evaluates the TM and the TE condition there, and returns true if and only if
  the residual of the TE condition or that of the TM condition is within the tolerance of
  zero. The result is this closed expression of the supplied \<open>kz\<close>: nothing is searched.
  The statement is for the inputs at which these expressions have a value: a wavelength
  and a width that are not zero, squares in the range of a double, and both residuals
  away from the poles.
\<close>

theorem verify_mode_formula:
  assumes "lmbd0 \<noteq> 0" and "w \<noteq> 0"
    and "k0 = 2 * pi / lmbd0" and "ky = pi / w"
    and "squares_finite kz k0 ky"
    and "kx_d = csqrt (of_real (k0 ^ 2) * eps_d - of_real (ky ^ 2) - kz ^ 2)"
    and "kx_v = csqrt (kx_d ^ 2 - of_real (k0 ^ 2) * (eps_d - eps_v))"
    and "TMx_defined kx_d kx_v eps_d eps_v d h" and "TEx_defined kx_d kx_v d h"
  shows "verify_mode kz w h d lmbd0 eps_d eps_v threshold =
           Inr (Some (cmod (TEx_condition kx_d kx_v d h) \<le> threshold
                      \<or> cmod (TMx_condition kx_d kx_v eps_d eps_v d h) \<le> threshold))"
proof -
  have sf: "squares_finite kz (2 * pi / lmbd0) (pi / w)"
    using assms(3-5) by simp
  show ?thesis
    unfolding verify_mode_finite [OF assms(1,2) sf] Let_def
      assms(3,4) [symmetric] assms(6) [symmetric] assms(7) [symmetric]
    using assms(8,9)
    by (auto simp: residual_isclose_def py_or_def isclose_zero split: bool.splits)
qed

text \<open>
  An empty guide (both permittivities 1) of width 0.75 and height 1 at the wavelength
  1.2: \<open>k0 = 5 pi / 3\<close> and \<open>ky = 4 pi / 3\<close>, so at \<open>kz = 0\<close> both transverse wavenumbers
  are \<open>pi\<close>, the first mode across the height. With \<open>d = 0.25\<close> the tangents are taken at
  \<open>pi / 4\<close> and \<open>3 pi / 4\<close>, away from every pole; both residuals vanish and the check
  accepts.
\<close>

theorem verify_mode_formula_witness:
  "(6 / 5 :: real) \<noteq> 0 \<and> (3 / 4 :: real) \<noteq> 0
   \<and> squares_finite 0 (2 * pi / (6 / 5)) (pi / (3 / 4))
   \<and> TMx_defined (of_real pi) (of_real pi) 1 1 (1 / 4) 1
   \<and> TEx_defined (of_real pi) (of_real pi) (1 / 4) 1
   \<and> verify_mode 0 (3 / 4) 1 (1 / 4) (6 / 5) 1 1 (1 / 10 ^ 4) = Inr (Some True)"
proof -
  have k0: "2 * pi / (6 / 5) = 5 / 3 * pi" and ky: "pi / (3 / 4) = 4 / 3 * pi"
    by simp_all
  have sf: "squares_finite 0 (2 * pi / (6 / 5)) (pi / (3 / 4))"
    unfolding k0 ky by (rule squares_finite_pi) simp_all
  have embed: "complex_of_real x * 1 - of_real y - 0 ^ 2 = of_real (x - y)" for x y
    by simp
  have "csqrt ((complex_of_real pi) ^ 2) = of_real pi"
    by (rule csqrt_square) simp
  then have root: "csqrt (complex_of_real (pi ^ 2)) = of_real pi"
    by (simp only: of_real_power)
  have "(5 / 3 * pi) ^ 2 - (4 / 3 * pi) ^ 2 = pi ^ 2"
    by (simp add: power2_eq_square field_simps)
  then have kx_d: "complex_of_real pi
      = csqrt (of_real ((2 * pi / (6 / 5)) ^ 2) * 1 - of_real ((pi / (3 / 4)) ^ 2) - 0 ^ 2)"
    unfolding k0 ky embed by (simp only: root)
  have "(complex_of_real pi) ^ 2 - of_real ((2 * pi / (6 / 5)) ^ 2) * (1 - 1)
          = of_real (pi ^ 2)"
    by simp
  then have kx_v: "complex_of_real pi
      = csqrt ((of_real pi) ^ 2 - of_real ((2 * pi / (6 / 5)) ^ 2) * (1 - 1))"
    by (simp only: root)
  have arg_d: "complex_of_real pi * of_real (1 / 4) = of_real (pi / 4)"
    and arg_v: "complex_of_real pi * of_real (1 - 1 / 4) = of_real (3 * pi / 4)"
    by simp_all
  have tm: "TMx_defined (of_real pi) (of_real pi) 1 1 (1 / 4) 1"
    unfolding TMx_defined_def arg_d arg_v complex_trig_quarter_pi by simp
  have te: "TEx_defined (of_real pi) (of_real pi) (1 / 4) 1"
    unfolding TEx_defined_def arg_d arg_v complex_trig_quarter_pi by simp
  have "TMx_condition (of_real pi) (of_real pi) 1 1 (1 / 4) 1 = 0"
    unfolding TMx_condition_def tan_def arg_d arg_v complex_trig_quarter_pi by simp
  then have verdict: "verify_mode 0 (3 / 4) 1 (1 / 4) (6 / 5) 1 1 (1 / 10 ^ 4) = Inr (Some True)"
    using verify_mode_formula [OF _ _ refl refl sf kx_d kx_v tm te, of "1 / 10 ^ 4"]
    by simp
  show ?thesis
    using sf tm te verdict by simp
qed

text \<open>
  C10. The closeness test of the mode check is on the modulus: for every complex residual
  \<open>f\<close>, every relative tolerance and every threshold, \<open>isclose(f, 0, atol = threshold)\<close>
  holds if and only if \<open>|f| <= threshold\<close>, the relative term vanishing at the reference
  value 0. It is not a test of the two parts: the real and the imaginary part of \<open>3 + 4i\<close>
  are both within 4 of zero, and \<open>3 + 4i\<close>, of modulus 5, is not close to 0 at the
  threshold 4.
\<close>

theorem isclose_zero_is_modulus:
  "(isclose f 0 rtol threshold \<longleftrightarrow> cmod f \<le> threshold)
   \<and> \<bar>Re (Complex 3 4)\<bar> \<le> 4 \<and> \<bar>Im (Complex 3 4)\<bar> \<le> 4
   \<and> \<not> isclose (Complex 3 4) 0 isclose_rtol 4"
proof -
  have "cmod (Complex 3 4) = sqrt (5 ^ 2)"
    by (simp add: cmod_def)
  then have "cmod (Complex 3 4) = 5"
    by (simp only: real_sqrt_abs abs_numeral)
  then show ?thesis
    by (simp add: isclose_zero)
qed

section \<open>Exceptions\<close>

text \<open>
  C8, as the claim states it, fails: at the wavelength zero the first statement of the
  mode check, \<open>k0 = 2 * np.pi / lmbd0\<close>, divides one Python float by another and raises
  \<open>ZeroDivisionError\<close>. The other arguments are those of the demo.
\<close>

theorem verify_mode_zero_wavelength_raises:
  "verify_mode 1 1 (45 / 100) (225 / 1000) 0 (245 / 100) 1 (1 / 10 ^ 4) = Inl ZeroDivisionError"
  by (simp add: verify_mode_def py_truediv_def)

text \<open>
  C8, amended. Neither kernel validates its input or raises an exception of its own, but
  on Python scalars neither is total: Python's own arithmetic raises. The mode check
  raises \<open>ZeroDivisionError\<close> exactly when the wavelength or the width is zero, raises
  \<open>OverflowError\<close> when the square of a finite \<open>k0\<close> or \<open>ky\<close> or of a real \<open>kz\<close> leaves
  the range of a double, and returns a truth value when neither is zero and the squares
  stay in range. The efficiencies routine raises \<open>ZeroDivisionError\<close> when the wavelength
  or the radius is zero and raises no other exception; it returns a triple when the
  wavelength is not zero and the size parameter, before and after the factor \<open>n_bkg\<close>, is
  no smaller than the least normal double. Nothing else is required of the input: a
  negative wavelength or radius, or a dielectric higher than the guide, gets a result.
\<close>

theorem kernels_raise_on_python_arithmetic:
  "(lmbd0 = 0 \<or> w = 0 \<longrightarrow>
      verify_mode kz w h d lmbd0 eps_d eps_v threshold = Inl ZeroDivisionError)
   \<and> (verify_mode kz w h d lmbd0 eps_d eps_v threshold = Inl ZeroDivisionError \<longrightarrow>
      lmbd0 = 0 \<or> w = 0)
   \<and> (lmbd0 \<noteq> 0 \<and> w \<noteq> 0
        \<and> ((py_finite (2 * pi / lmbd0) \<and> \<not> py_finite ((2 * pi / lmbd0) ^ 2))
            \<or> (py_finite (pi / w) \<and> \<not> py_finite ((pi / w) ^ 2))
            \<or> (Im kz = 0 \<and> \<not> py_finite ((Re kz) ^ 2))) \<longrightarrow>
      verify_mode kz w h d lmbd0 eps_d eps_v threshold = Inl OverflowError)
   \<and> (lmbd0 \<noteq> 0 \<and> w \<noteq> 0 \<and> squares_finite kz (2 * pi / lmbd0) (pi / w) \<longrightarrow>
      (\<exists>v. verify_mode kz w h d lmbd0 eps_d eps_v threshold = Inr v))
   \<and> (wl0 = 0 \<or> radius_wire = 0 \<longrightarrow>
      calculate_analytical_efficiencies sf eps n_bkg wl0 radius_wire num_n
        = Inl ZeroDivisionError)
   \<and> (\<forall>e. calculate_analytical_efficiencies sf eps n_bkg wl0 radius_wire num_n = Inl e
        \<longrightarrow> e = ZeroDivisionError)
   \<and> (wl0 \<noteq> 0 \<and> float_min_normal \<le> \<bar>2 * pi * radius_wire / wl0\<bar>
        \<and> float_min_normal \<le> \<bar>2 * pi * radius_wire / wl0 * n_bkg\<bar> \<longrightarrow>
      (\<exists>q. calculate_analytical_efficiencies sf eps n_bkg wl0 radius_wire num_n = Inr q))"
proof -
  have vm_zde: "lmbd0 = 0 \<or> w = 0"
    if "verify_mode kz w h d lmbd0 eps_d eps_v threshold = Inl ZeroDivisionError"
    using that verify_mode_wavenumbers_no_zero_division [of kz "2 * pi / lmbd0" "pi / w" eps_d eps_v]
    by (auto simp: verify_mode_def py_truediv_def Let_def
        split: if_splits sum.splits option.splits prod.splits)
  have vm_ovf: "verify_mode kz w h d lmbd0 eps_d eps_v threshold = Inl OverflowError"
    if "lmbd0 \<noteq> 0" "w \<noteq> 0"
      and "(py_finite (2 * pi / lmbd0) \<and> \<not> py_finite ((2 * pi / lmbd0) ^ 2))
            \<or> (py_finite (pi / w) \<and> \<not> py_finite ((pi / w) ^ 2))
            \<or> (Im kz = 0 \<and> \<not> py_finite ((Re kz) ^ 2))"
    using that(1,2)
    by (simp add: verify_mode_def py_truediv_def Let_def
        verify_mode_wavenumbers_overflow [OF that(3)])
  have vm_ret: "\<exists>v. verify_mode kz w h d lmbd0 eps_d eps_v threshold = Inr v"
    if "lmbd0 \<noteq> 0" "w \<noteq> 0" "squares_finite kz (2 * pi / lmbd0) (pi / w)"
    unfolding verify_mode_finite [OF that] Let_def by simp
  have ce_only: "e = ZeroDivisionError"
    if "calculate_analytical_efficiencies sf eps n_bkg wl0 radius_wire num_n = Inl e" for e
    using that
    by (auto simp: calculate_analytical_efficiencies_def py_truediv_def Let_def
        split: if_splits prod.splits)
  have ce_ret: "\<exists>q. calculate_analytical_efficiencies sf eps n_bkg wl0 radius_wire num_n = Inr q"
    if "wl0 \<noteq> 0" "float_min_normal \<le> \<bar>2 * pi * radius_wire / wl0\<bar>"
      "float_min_normal \<le> \<bar>2 * pi * radius_wire / wl0 * n_bkg\<bar>"
  proof -
    have "2 * pi * radius_wire / wl0 * n_bkg \<noteq> 0"
      using that(3) by (rule size_parameter_large)
    then have nz: "radius_wire \<noteq> 0" "n_bkg \<noteq> 0"
      by auto
    show ?thesis
      unfolding efficiencies_returns [OF that(1) nz] Let_def by simp
  qed
  show ?thesis
    using vm_zde vm_ovf vm_ret ce_only ce_ret
      verify_mode_raises [of lmbd0 w kz h d eps_d eps_v threshold]
      efficiencies_raises [of wl0 radius_wire n_bkg sf eps num_n]
    by blast
qed

text \<open>
  The mode check on a dielectric of height 2 in a guide of height 1 at the wavelength
  \<open>-1\<close>, where it returns; at the width zero, where the division raises; at
  \<open>kz = 1e200\<close>, where the square raises. The efficiencies routine on a wire of radius
  \<open>-0.05\<close>, where it returns, and at the wavelength zero, where the division raises.
\<close>

theorem kernels_raise_on_python_arithmetic_witness:
  "squares_finite 1 (2 * pi / (- 1)) (pi / 1)
   \<and> (\<exists>v. verify_mode 1 1 1 2 (- 1) (245 / 100) 1 (1 / 10 ^ 4) = Inr v)
   \<and> verify_mode 1 0 1 2 1 (245 / 100) 1 (1 / 10 ^ 4) = Inl ZeroDivisionError
   \<and> verify_mode (10 ^ 200) 1 (45 / 100) (225 / 1000) 2 (245 / 100) 1 (1 / 10 ^ 4)
       = Inl OverflowError
   \<and> float_min_normal \<le> \<bar>2 * pi * (- (5 / 100)) / (4 / 10)\<bar>
   \<and> (\<exists>q. calculate_analytical_efficiencies sample_special
              (Complex (- (10782 / 10000)) (58089 / 10000)) 1 (4 / 10) (- (5 / 100)) 50 = Inr q)
   \<and> calculate_analytical_efficiencies sample_special
        (Complex (- (10782 / 10000)) (58089 / 10000)) 1 0 (5 / 100) 50 = Inl ZeroDivisionError"
proof -
  have "2 * pi / (- 1) = (- 2) * pi" and "pi / 1 = 1 * pi"
    by simp_all
  then have sf: "squares_finite 1 (2 * pi / (- 1)) (pi / 1)"
    using squares_finite_pi [of "- 2" 1 1] by simp
  have big: "Im (10 ^ 200) = 0 \<and> \<not> py_finite ((Re (10 ^ 200)) ^ 2)"
    unfolding complex_1e200 using py_finite_1e200(2) by blast
  have small: "float_min_normal \<le> 1 / 2"
    by (simp add: float_min_normal_def)
  have size: "\<bar>2 * pi * (- (5 / 100)) / (4 / 10)\<bar> = pi / 4"
    by simp
  have "1 / 2 \<le> pi / 4"
    using pi_ge_two by simp
  then have "1 / 2 \<le> \<bar>2 * pi * (- (5 / 100)) / (4 / 10)\<bar>"
    by (simp only: size)
  with small have tiny: "float_min_normal \<le> \<bar>2 * pi * (- (5 / 100)) / (4 / 10)\<bar>"
    by (rule order_trans)
  then have tiny': "float_min_normal \<le> \<bar>2 * pi * (- (5 / 100)) / (4 / 10) * 1\<bar>"
    by simp
  have nz: "(- 1 :: real) \<noteq> 0" "(1 :: real) \<noteq> 0" "(2 :: real) \<noteq> 0" "(4 / 10 :: real) \<noteq> 0"
    by simp_all
  have returns: "\<exists>v. verify_mode 1 1 1 2 (- 1) (245 / 100) 1 (1 / 10 ^ 4) = Inr v"
    using sf nz
      kernels_raise_on_python_arithmetic [where ?lmbd0.0 = "- 1" and w = 1 and kz = 1]
    by blast
  have zero_width: "verify_mode 1 0 1 2 1 (245 / 100) 1 (1 / 10 ^ 4) = Inl ZeroDivisionError"
    using kernels_raise_on_python_arithmetic [where w = 0]
    by blast
  have overflow: "verify_mode (10 ^ 200) 1 (45 / 100) (225 / 1000) 2 (245 / 100) 1 (1 / 10 ^ 4)
       = Inl OverflowError"
    using big nz
      kernels_raise_on_python_arithmetic [where ?lmbd0.0 = 2 and w = 1 and kz = "10 ^ 200"]
    by blast
  have wire: "\<exists>q. calculate_analytical_efficiencies sample_special
              (Complex (- (10782 / 10000)) (58089 / 10000)) 1 (4 / 10) (- (5 / 100)) 50 = Inr q"
    using tiny tiny' nz
      kernels_raise_on_python_arithmetic [where ?wl0.0 = "4 / 10" and radius_wire = "- (5 / 100)"
        and n_bkg = 1]
    by blast
  have zero_wavelength: "calculate_analytical_efficiencies sample_special
        (Complex (- (10782 / 10000)) (58089 / 10000)) 1 0 (5 / 100) 50 = Inl ZeroDivisionError"
    using kernels_raise_on_python_arithmetic [where ?wl0.0 = 0]
    by blast
  show ?thesis
    using sf returns zero_width overflow tiny wire zero_wavelength by blast
qed

end
